theory Spec2Isabelle
  imports Main
begin

section \<open>Data model of ChatApp.tsx\<close>

text \<open>
  The interfaces \<open>ChatMessage\<close>, \<open>DocumentItem\<close> and \<open>SavedChat\<close> of the source.
  Record fields are global constants in HOL, so the fields of \<open>DocumentItem\<close> and
  \<open>SavedChat\<close> carry a prefix where the source reuses \<open>content\<close>, \<open>messages\<close> and
  \<open>documents\<close>. A JavaScript string is modelled as a \<open>string\<close>, one \<open>char\<close> per
  code unit.
\<close>

datatype role = User | Assistant | System

record ChatMessage =
  role :: role
  content :: string

record DocumentItem =
  doc_name :: string
  doc_type :: string
  doc_content :: string

record SavedChat =
  sc_id :: string
  sc_title :: string
  sc_messages :: "ChatMessage list"
  sc_documents :: "DocumentItem list"
  sc_timestamp :: string

text \<open>The \<open>useState\<close> cells of the component, one field per cell.\<close>

record state =
  apiKey :: string
  message :: string
  chatHistory :: "ChatMessage list"
  savedChats :: "SavedChat list"
  currentChatId :: string
  currentChatTitle :: string
  isLoading :: bool
  error :: "string option"
  documents :: "DocumentItem list"
  showTextInput :: bool
  manualText :: string
  hasSentMessage :: bool
  isOnline :: bool
  isRetrying :: bool

text \<open>
  One reading of the wall clock: \<open>Date.now()\<close> in milliseconds and the text that
  \<open>new Date().toISOString()\<close> returns at that moment.
\<close>

record clock =
  now :: nat
  iso :: string

definition MAX_RETRIES :: nat where
  "MAX_RETRIES = 5"

definition INITIAL_BACKOFF_MS :: nat where
  "INITIAL_BACKOFF_MS = 1000"

section \<open>Strings\<close>

text \<open>Decimal rendering of a non-negative integer, as \<open>toString()\<close> and template literals print it.\<close>

definition digit :: "nat \<Rightarrow> char" where
  "digit d = ''0123456789'' ! d"

function string_of_nat :: "nat \<Rightarrow> string" where
  "string_of_nat n =
     (if n < 10 then [digit n]
      else string_of_nat (n div 10) @ [digit (n mod 10)])"
  by pat_completeness auto
termination
  by (relation "measure (\<lambda>n. n)") auto

declare string_of_nat.simps [simp del]

text \<open>
  \<open>String.prototype.trim\<close> on the code units below 256: tab, line feed, vertical tab,
  form feed, carriage return, space and no-break space are stripped from both ends.
\<close>

definition isWhiteSpace :: "char \<Rightarrow> bool" where
  "isWhiteSpace c =
     (let n = (of_char c :: nat)
      in n = 9 \<or> n = 10 \<or> n = 11 \<or> n = 12 \<or> n = 13 \<or> n = 32 \<or> n = 160)"

definition trim :: "string \<Rightarrow> string" where
  "trim s = rev (dropWhile isWhiteSpace (rev (dropWhile isWhiteSpace s)))"

text \<open>\<open>xs.join(sep)\<close> on an array of strings.\<close>

fun join :: "string \<Rightarrow> string list \<Rightarrow> string" where
  "join sep [] = []"
| "join sep [x] = x"
| "join sep (x # y # ys) = x @ sep @ join sep (y # ys)"

section \<open>Conversation controller\<close>

text \<open>
  A handler of the component reads the state cells through the closure of the render that
  created it (\<open>snap\<close>) and queues its updates; \<open>st\<close> is the state the queued updates are
  applied to, in order. A setter called with a value overwrites the cell, a setter called
  with an updater function (\<open>setSavedChats((prevChats) => ...)\<close>) reads the cell of
  \<open>st\<close>. A handler fired from the rendered page runs with \<open>snap = st\<close>.
\<close>

definition saveCurrentChat :: "clock \<Rightarrow> state \<Rightarrow> state \<Rightarrow> state" where
  "saveCurrentChat clk snap st =
     (if length (chatHistory snap) > 0 then
        (let chatToSave = \<lparr>
               sc_id = (if currentChatId snap = ''new'' then string_of_nat (now clk)
                        else currentChatId snap),
               sc_title =
                 (if currentChatTitle snap \<noteq> [] then currentChatTitle snap
                  else (case chatHistory snap of
                          [] \<Rightarrow> ''Untitled''
                        | m # _ \<Rightarrow> (if content m \<noteq> [] then take 30 (content m) @ ''...''
                                   else ''Untitled''))),
               sc_messages = chatHistory snap,
               sc_documents = documents snap,
               sc_timestamp = iso clk \<rparr>;
             filteredChats =
               (if currentChatId snap \<noteq> ''new''
                then filter (\<lambda>chat. sc_id chat \<noteq> currentChatId snap) (savedChats st)
                else savedChats st);
             st1 = st\<lparr>savedChats := chatToSave # filteredChats\<rparr>
         in if currentChatId snap = ''new'' then st1\<lparr>currentChatId := sc_id chatToSave\<rparr>
            else st1)
      else st)"

definition createNewChat :: "clock \<Rightarrow> state \<Rightarrow> state \<Rightarrow> state" where
  "createNewChat clk snap st =
     (saveCurrentChat clk snap st)\<lparr>
        currentChatId := ''new'',
        currentChatTitle := ''New Chat'',
        chatHistory := [],
        documents := [],
        hasSentMessage := False\<rparr>"

definition loadChat :: "clock \<Rightarrow> string \<Rightarrow> state \<Rightarrow> state \<Rightarrow> state" where
  "loadChat clk chatId snap st =
     (let st1 = saveCurrentChat clk snap st
      in case find (\<lambda>chat. sc_id chat = chatId) (savedChats snap) of
           None \<Rightarrow> st1
         | Some chatToLoad \<Rightarrow>
             st1\<lparr>currentChatId := sc_id chatToLoad,
                 currentChatTitle := sc_title chatToLoad,
                 chatHistory := sc_messages chatToLoad,
                 documents := sc_documents chatToLoad,
                 hasSentMessage := (length (sc_messages chatToLoad) > 0)\<rparr>)"

definition deleteChat :: "clock \<Rightarrow> string \<Rightarrow> state \<Rightarrow> state \<Rightarrow> state" where
  "deleteChat clk chatId snap st =
     (let st1 = st\<lparr>savedChats := filter (\<lambda>chat. sc_id chat \<noteq> chatId) (savedChats st)\<rparr>
      in if currentChatId snap = chatId then createNewChat clk snap st1 else st1)"

text \<open>The remaining handlers that act on the active session without replacing it.\<close>

definition updateChatTitle :: "string \<Rightarrow> state \<Rightarrow> state" where
  "updateChatTitle v st = st\<lparr>currentChatTitle := v\<rparr>"

definition handleApiKeyChange :: "string \<Rightarrow> state \<Rightarrow> state" where
  "handleApiKeyChange v st = st\<lparr>apiKey := v\<rparr>"

definition handleMessageChange :: "string \<Rightarrow> state \<Rightarrow> state" where
  "handleMessageChange v st = st\<lparr>message := v\<rparr>"

text \<open>
  \<open>handleFileUpload\<close>: each file is given by its name, its type and the text the reader
  returns; the documents are appended once every file has been read.
\<close>

definition handleFileUpload :: "(string \<times> string \<times> string) list \<Rightarrow> state \<Rightarrow> state" where
  "handleFileUpload newFiles st =
     st\<lparr>documents := documents st @
          map (\<lambda>(n, t, txt). \<lparr>doc_name = n, doc_type = t, doc_content = take 3000 txt\<rparr>)
            newFiles\<rparr>"

text \<open>\<open>handleManualTextSubmit\<close>; \<open>timeLabel\<close> is the text of \<open>toLocaleTimeString()\<close>.\<close>

definition handleManualTextSubmit :: "string \<Rightarrow> state \<Rightarrow> state \<Rightarrow> state" where
  "handleManualTextSubmit timeLabel snap st =
     (if trim (manualText snap) \<noteq> [] then
        st\<lparr>documents := documents st @
               [\<lparr>doc_name = ''Manual text ('' @ timeLabel @ '')'',
                 doc_type = ''text/plain'',
                 doc_content = take 3000 (manualText snap)\<rparr>],
           manualText := [],
           showTextInput := False\<rparr>
      else st)"

definition removeDocument :: "nat \<Rightarrow> state \<Rightarrow> state" where
  "removeDocument index st =
     st\<lparr>documents := map snd (filter (\<lambda>(i, _). i \<noteq> index)
                          (zip [0 ..< length (documents st)] (documents st)))\<rparr>"

section \<open>The completion client: \<open>sendMessage\<close>\<close>

text \<open>
  What one \<open>fetch\<close> of the loop can produce. \<open>Thrown\<close> is a rejected fetch, with the text
  the handler prints for the thrown value. A response carries its status and its body:
  \<^item> \<open>Unparseable e\<close>: \<open>response.json()\<close> rejects with a value whose text is \<open>e\<close>;
  \<^item> \<open>JsonNull e\<close>: the body is the JSON value \<open>null\<close>, and reading a property of it
    (\<open>data.choices\<close>, \<open>errorData.error\<close>) throws a TypeError whose text is \<open>e\<close>;
  \<^item> \<open>Json a m\<close>: any other JSON value, with \<open>a\<close> what \<open>choices?.[0]?.message\<close> yields and
    \<open>m\<close> what \<open>error?.message\<close> yields.
\<close>

datatype body =
    Unparseable string
  | JsonNull string
  | Json "ChatMessage option" "string option"

datatype fetchOutcome =
    Thrown string
  | Response nat body

text \<open>\<open>response.ok\<close>.\<close>

definition ok :: "nat \<Rightarrow> bool" where
  "ok status = (200 \<le> status \<and> status \<le> 299)"

text \<open>Truthiness of an optional string: \<open>undefined\<close> and the empty string are falsy.\<close>

fun truthy :: "string option \<Rightarrow> bool" where
  "truthy None = False"
| "truthy (Some s) = (s \<noteq> [])"

text \<open>
  What the invocation does to the outside world, in order: a request with its bearer key
  and message list, a backoff wait in milliseconds, and a timer that clears the error.
\<close>

datatype event =
    Fetch string "ChatMessage list"
  | Wait nat
  | ClearErrorAfter nat

text \<open>How the invocation ended: a \<open>return\<close> before the loop, a \<open>return\<close> inside it, or the code after it.\<close>

datatype exit = EarlyReturn | LoopReturn | PostLoop

text \<open>The outcome of one iteration: the function returned, or the loop goes round after a wait.\<close>

datatype step = Done state | Again nat state

text \<open>The request's message list (lines 236 to 247).\<close>

definition apiMessages :: "state \<Rightarrow> ChatMessage list" where
  "apiMessages snap =
     (let userMessage = \<lparr>role = User, content = message snap\<rparr>;
          context = join ''\<newline>\<newline>'' (map doc_content (documents snap));
          contextMessage =
            (if context \<noteq> [] then Some \<lparr>role = System, content = ''Context:\<newline>'' @ context\<rparr>
             else None)
      in chatHistory snap
         @ (case contextMessage of None \<Rightarrow> [] | Some c \<Rightarrow> [c])
         @ [userMessage])"

text \<open>The \<open>catch\<close> block of the loop.\<close>

definition catchBlock :: "nat \<Rightarrow> string \<Rightarrow> state \<Rightarrow> step" where
  "catchBlock currentTry err st =
     (if currentTry < MAX_RETRIES then
        (let delay = INITIAL_BACKOFF_MS * 2 ^ currentTry
         in Again delay
              (st\<lparr>error := Some (''Network error: '' @ err @ ''. Retrying in ''
                                 @ string_of_nat (delay div 1000) @ ''s... (Attempt ''
                                 @ string_of_nat (currentTry + 1) @ ''/''
                                 @ string_of_nat MAX_RETRIES @ '')''),
                  isRetrying := True\<rparr>))
      else
        Done (st\<lparr>error := Some (''Network error: '' @ err @ ''. Max retries reached.''),
                 isLoading := False,
                 isRetrying := False\<rparr>))"

text \<open>
  The body of the \<open>while\<close> loop for the outcome \<open>out\<close> of its fetch. Whatever the \<open>try\<close>
  block throws (a rejected fetch, a rejected \<open>response.json()\<close> on the success path, a
  property read on \<open>null\<close>) reaches \<open>catchBlock\<close> before any setter of the branch has run.
\<close>

definition attempt :: "clock \<Rightarrow> state \<Rightarrow> nat \<Rightarrow> fetchOutcome \<Rightarrow> state \<Rightarrow> step" where
  "attempt clk snap currentTry out st =
     (case out of
        Thrown err \<Rightarrow> catchBlock currentTry err st
      | Response status b \<Rightarrow>
          if ok status then
            (case b of
               Unparseable err \<Rightarrow> catchBlock currentTry err st
             | JsonNull err \<Rightarrow> catchBlock currentTry err st
             | Json assistantMessage _ \<Rightarrow>
                 (let st1 = (case assistantMessage of
                               Some m \<Rightarrow> st\<lparr>chatHistory := chatHistory st @ [m]\<rparr>
                             | None \<Rightarrow> st\<lparr>error := Some ''No response from assistant.''\<rparr>)
                  in Done (saveCurrentChat clk snap
                             (st1\<lparr>isLoading := False, isRetrying := False\<rparr>))))
          else if (status = 429 \<or> status \<ge> 500) \<and> currentTry < MAX_RETRIES then
            (case b of
               JsonNull err \<Rightarrow> catchBlock currentTry err st
             | _ \<Rightarrow>
                 (let errorMessage = (case b of Json _ m \<Rightarrow> m | _ \<Rightarrow> None);
                      delay = INITIAL_BACKOFF_MS * 2 ^ currentTry
                  in Again delay
                       (st\<lparr>error := Some (''API request failed (status ''
                                @ string_of_nat status
                                @ (if truthy errorMessage then '': '' @ the errorMessage else [])
                                @ ''). Retrying in '' @ string_of_nat (delay div 1000)
                                @ ''s... (Attempt '' @ string_of_nat (currentTry + 1) @ ''/''
                                @ string_of_nat MAX_RETRIES @ '')''),
                           isRetrying := True\<rparr>)))
          else
            (case b of
               JsonNull err \<Rightarrow> catchBlock currentTry err st
             | _ \<Rightarrow>
                 (let errorMessage =
                        (case b of Json _ m \<Rightarrow> m
                                 | _ \<Rightarrow> Some ''Failed to parse error response.'')
                  in Done
                       (st\<lparr>error := Some (''API error: '' @ string_of_nat status @ '' - ''
                                @ (if truthy errorMessage then the errorMessage
                                   else ''Unknown error'')
                                @ ''. ''
                                @ (if currentTry \<ge> MAX_RETRIES then ''Max retries reached.''
                                   else ''Non-retryable error.'')),
                           isLoading := False,
                           isRetrying := False\<rparr>))))"

text \<open>The code after the loop (lines 364 to 370).\<close>

definition afterLoop :: "nat \<Rightarrow> state \<Rightarrow> state" where
  "afterLoop currentTry st =
     (let st1 = st\<lparr>isLoading := False, isRetrying := False\<rparr>
      in if currentTry > MAX_RETRIES
         then st1\<lparr>error :=
                Some ''Max retries reached. Failed to get a response from the assistant.''\<rparr>
         else st1)"

text \<open>
  The \<open>while\<close> loop. \<open>env k\<close> is the outcome of the fetch that \<open>k\<close> earlier fetches of this
  invocation precede; \<open>calls\<close> counts the fetches made so far.
\<close>

function retryLoop ::
  "(nat \<Rightarrow> fetchOutcome) \<Rightarrow> clock \<Rightarrow> state \<Rightarrow> nat \<Rightarrow> nat \<Rightarrow> state
     \<Rightarrow> state \<times> event list \<times> exit" where
  "retryLoop env clk snap calls currentTry st =
     (if currentTry \<le> MAX_RETRIES then
        (case attempt clk snap currentTry (env calls) st of
           Done st' \<Rightarrow> (st', [Fetch (apiKey snap) (apiMessages snap)], LoopReturn)
         | Again delay st' \<Rightarrow>
             (case retryLoop env clk snap (calls + 1) (currentTry + 1) st' of
                (st'', evs, ex) \<Rightarrow>
                  (st'', Fetch (apiKey snap) (apiMessages snap) # Wait delay # evs, ex)))
      else (afterLoop currentTry st, [], PostLoop))"
  by pat_completeness auto
termination
  by (relation "measure (\<lambda>(env, clk, snap, calls, currentTry, st). MAX_RETRIES + 1 - currentTry)")
     auto

declare retryLoop.simps [simp del]

definition sendMessage ::
  "(nat \<Rightarrow> fetchOutcome) \<Rightarrow> clock \<Rightarrow> state \<Rightarrow> state \<Rightarrow> state \<times> event list \<times> exit" where
  "sendMessage env clk snap st =
     (if hasSentMessage snap then (st, [], EarlyReturn)
      else if trim (message snap) = [] then
        (st\<lparr>error := Some ''Please enter a message to send.''\<rparr>,
         [ClearErrorAfter 3000], EarlyReturn)
      else if length (documents snap) = 0 then
        (st\<lparr>error :=
             Some ''Please upload a document or input text before sending a message.''\<rparr>,
         [ClearErrorAfter 3000], EarlyReturn)
      else if trim (apiKey snap) = [] then
        (st\<lparr>error := Some ''Please enter an API key first''\<rparr>,
         [ClearErrorAfter 3000], EarlyReturn)
      else if \<not> isOnline snap then
        (st\<lparr>error :=
             Some ''No internet connection. Please check your connection and try again.''\<rparr>,
         [ClearErrorAfter 5000], EarlyReturn)
      else
        (let userMessage = \<lparr>role = User, content = message snap\<rparr>
         in retryLoop env clk snap 0 0
              (st\<lparr>chatHistory := chatHistory st @ [userMessage],
                  message := [],
                  isLoading := True,
                  error := None,
                  hasSentMessage := True,
                  isRetrying := False\<rparr>)))"

section \<open>Observing an invocation\<close>

text \<open>The three components of what \<open>sendMessage\<close> yields.\<close>

definition finalState :: "state \<times> event list \<times> exit \<Rightarrow> state" where
  "finalState r = fst r"

definition events :: "state \<times> event list \<times> exit \<Rightarrow> event list" where
  "events r = fst (snd r)"

definition exitOf :: "state \<times> event list \<times> exit \<Rightarrow> exit" where
  "exitOf r = snd (snd r)"

text \<open>The network attempts and the backoff waits of a trace.\<close>

fun isFetch :: "event \<Rightarrow> bool" where
  "isFetch (Fetch k ms) = True"
| "isFetch (Wait d) = False"
| "isFetch (ClearErrorAfter d) = False"

definition fetches :: "event list \<Rightarrow> nat" where
  "fetches evs = length (filter isFetch evs)"

fun waitsOf :: "event list \<Rightarrow> nat list" where
  "waitsOf [] = []"
| "waitsOf (Wait d # evs) = d # waitsOf evs"
| "waitsOf (e # evs) = waitsOf evs"

text \<open>
  \<open>rounds snap n k\<close> is the trace of \<open>k\<close> failed attempts in a row, the first made with the
  counter at \<open>n\<close>: each is a request followed by its backoff wait.
\<close>

fun rounds :: "state \<Rightarrow> nat \<Rightarrow> nat \<Rightarrow> event list" where
  "rounds snap n 0 = []"
| "rounds snap n (Suc k) =
     Fetch (apiKey snap) (apiMessages snap) # Wait (INITIAL_BACKOFF_MS * 2 ^ n)
       # rounds snap (Suc n) k"

text \<open>The five guards at the head of \<open>sendMessage\<close>, all passed.\<close>

definition passesPreconditions :: "state \<Rightarrow> bool" where
  "passesPreconditions s =
     (\<not> hasSentMessage s \<and> trim (message s) \<noteq> [] \<and> length (documents s) \<noteq> 0
      \<and> trim (apiKey s) \<noteq> [] \<and> isOnline s)"

text \<open>
  An outcome that has the shape of a retryable failure: a thrown transport error, or a
  response with status 429 or a status from 500 to 599.
\<close>

fun retryableShaped :: "fetchOutcome \<Rightarrow> bool" where
  "retryableShaped (Thrown e) = True"
| "retryableShaped (Response status b) = (status = 429 \<or> (500 \<le> status \<and> status \<le> 599))"

fun isJsonNull :: "body \<Rightarrow> bool" where
  "isJsonNull (JsonNull e) = True"
| "isJsonNull (Unparseable e) = False"
| "isJsonNull (Json a m) = False"

text \<open>The text that only the code after the loop sets.\<close>

definition postLoopError :: string where
  "postLoopError = ''Max retries reached. Failed to get a response from the assistant.''"

section \<open>Concrete inputs\<close>

definition msg1 :: ChatMessage where
  "msg1 = \<lparr>role = User, content = ''hello''\<rparr>"

definition clk0 :: clock where
  "clk0 = \<lparr>now = 1700000000000, iso = ''2023-11-14T22:13:20.000Z''\<rparr>"

text \<open>A fresh session that passes every guard of \<open>sendMessage\<close>.\<close>

definition s_init :: state where
  "s_init = \<lparr>apiKey = ''k'', message = ''What is X?'', chatHistory = [], savedChats = [],
     currentChatId = ''new'', currentChatTitle = ''New Chat'', isLoading = False, error = None,
     documents = [\<lparr>doc_name = ''a.txt'', doc_type = ''text/plain'', doc_content = ''X is Y.''\<rparr>],
     showTextInput = False, manualText = [], hasSentMessage = False, isOnline = True,
     isRetrying = False\<rparr>"

text \<open>An endpoint that answers every request with status 500 and an empty JSON object.\<close>

definition env500 :: "nat \<Rightarrow> fetchOutcome" where
  "env500 k = Response 500 (Json None None)"

text \<open>An endpoint that answers every request with status 600.\<close>

definition env600 :: "nat \<Rightarrow> fetchOutcome" where
  "env600 k = Response 600 (Json None None)"

text \<open>An endpoint that answers every request with status 404 and an error message.\<close>

definition env404 :: "nat \<Rightarrow> fetchOutcome" where
  "env404 k = Response 404 (Json None (Some ''Not found''))"

text \<open>An endpoint that answers the first request with an assistant message.\<close>

definition envOk :: "nat \<Rightarrow> fetchOutcome" where
  "envOk k = Response 200 (Json (Some \<lparr>role = Assistant, content = ''X is Y.''\<rparr>) None)"

text \<open>The session \<open>s_init\<close> after that answer.\<close>

definition s_sent :: state where
  "s_sent = s_init\<lparr>chatHistory := [\<lparr>role = User, content = ''What is X?''\<rparr>,
                                    \<lparr>role = Assistant, content = ''X is Y.''\<rparr>],
                   message := [], hasSentMessage := True\<rparr>"

text \<open>A session whose two attached documents are empty files.\<close>

definition s_blank :: state where
  "s_blank = s_init\<lparr>documents :=
     [\<lparr>doc_name = ''a.txt'', doc_type = ''text/plain'', doc_content = []\<rparr>,
      \<lparr>doc_name = ''b.txt'', doc_type = ''text/plain'', doc_content = []\<rparr>]\<rparr>"

definition msg2 :: ChatMessage where
  "msg2 = \<lparr>role = Assistant, content = ''hi there''\<rparr>"

text \<open>Two stored conversations, the second with an empty transcript.\<close>

definition chat1 :: SavedChat where
  "chat1 = \<lparr>sc_id = ''1699999999999'', sc_title = ''First'', sc_messages = [msg1, msg2],
     sc_documents = [], sc_timestamp = ''2023-11-14T22:13:19.999Z''\<rparr>"

definition chat0 :: SavedChat where
  "chat0 = \<lparr>sc_id = ''1600000000000'', sc_title = ''Empty'', sc_messages = [],
     sc_documents = [], sc_timestamp = ''2020-09-13T12:26:40.000Z''\<rparr>"

text \<open>A session that is bound to the stored conversation \<open>chat1\<close>.\<close>

definition s_loaded :: state where
  "s_loaded = s_init\<lparr>savedChats := [chat1, chat0], currentChatId := ''1699999999999'',
     currentChatTitle := ''First'', chatHistory := [msg1, msg2], documents := [],
     hasSentMessage := True\<rparr>"

text \<open>
  The session after one exchange, saved under the id \<open>1699999999999\<close> by leaving the title
  field: the only stored conversation is the active one.
\<close>

definition s_active :: state where
  "s_active = s_init\<lparr>savedChats := [chat1], currentChatId := ''1699999999999'',
     currentChatTitle := ''First'', chatHistory := [msg1, msg2], message := [],
     hasSentMessage := True\<rparr>"

text \<open>A session that has sent its message and has never been saved.\<close>

definition s_unsaved :: state where
  "s_unsaved = s_init\<lparr>chatHistory := [msg1, msg2], hasSentMessage := True\<rparr>"

section \<open>Events of the rendered page\<close>

text \<open>
  \<open>saveCurrentChat\<close> fired once per clock reading (the \<open>onBlur\<close> of the title field), each
  time from the state the previous call left.
\<close>

fun saves :: "clock list \<Rightarrow> state \<Rightarrow> state" where
  "saves [] s = s"
| "saves (clk # clks) s = saves clks (saveCurrentChat clk s s)"

text \<open>
  The events that act on the active session without replacing it by another one: the
  handlers bound in the markup, the inline setters of the text box, the connectivity
  listeners and the timer that clears a validation error. Each runs against the state of
  the latest render.
\<close>

datatype action =
    SendMessage "nat \<Rightarrow> fetchOutcome" clock
  | SaveCurrentChat clock
  | UpdateChatTitle string
  | HandleApiKeyChange string
  | HandleMessageChange string
  | HandleFileUpload "(string \<times> string \<times> string) list"
  | SetManualText string
  | ToggleTextInput
  | HandleManualTextSubmit string
  | RemoveDocument nat
  | SetIsOnline bool
  | ClearError

fun perform :: "action \<Rightarrow> state \<Rightarrow> state \<times> event list" where
  "perform (SendMessage env clk) s =
     (finalState (sendMessage env clk s s), events (sendMessage env clk s s))"
| "perform (SaveCurrentChat clk) s = (saveCurrentChat clk s s, [])"
| "perform (UpdateChatTitle v) s = (updateChatTitle v s, [])"
| "perform (HandleApiKeyChange v) s = (handleApiKeyChange v s, [])"
| "perform (HandleMessageChange v) s = (handleMessageChange v s, [])"
| "perform (HandleFileUpload newFiles) s = (handleFileUpload newFiles s, [])"
| "perform (SetManualText v) s = (s\<lparr>manualText := v\<rparr>, [])"
| "perform ToggleTextInput s = (s\<lparr>showTextInput := \<not> showTextInput s\<rparr>, [])"
| "perform (HandleManualTextSubmit timeLabel) s = (handleManualTextSubmit timeLabel s s, [])"
| "perform (RemoveDocument index) s = (removeDocument index s, [])"
| "perform (SetIsOnline v) s = (s\<lparr>isOnline := v\<rparr>, [])"
| "perform ClearError s = (s\<lparr>error := None\<rparr>, [])"

fun performAll :: "action list \<Rightarrow> state \<Rightarrow> state \<times> event list" where
  "performAll [] s = (s, [])"
| "performAll (a # as) s =
     (case perform a s of
        (s1, evs1) \<Rightarrow> (case performAll as s1 of (s2, evs2) \<Rightarrow> (s2, evs1 @ evs2)))"

section \<open>The retry loop: attempts, waits and exits\<close>

lemmas run_defs = sendMessage_def retryLoop.simps attempt_def catchBlock_def afterLoop_def
  apiMessages_def saveCurrentChat_def ok_def MAX_RETRIES_def INITIAL_BACKOFF_MS_def trim_def
  isWhiteSpace_def string_of_nat.simps digit_def Let_def finalState_def events_def exitOf_def
  fetches_def passesPreconditions_def

lemma attempt_Again:
  assumes "attempt clk snap n out st = Again d st'"
  shows "n < MAX_RETRIES \<and> d = INITIAL_BACKOFF_MS * 2 ^ n"
  using assms
  by (auto simp: attempt_def catchBlock_def Let_def
      split: fetchOutcome.splits body.splits if_splits option.splits)

lemma retryLoop_shape:
  assumes "n \<le> MAX_RETRIES" and "retryLoop env clk snap c n st = (st', evs, ex)"
  shows "\<exists>k st_k. n + k \<le> MAX_RETRIES
            \<and> evs = rounds snap n k @ [Fetch (apiKey snap) (apiMessages snap)]
            \<and> ex = LoopReturn
            \<and> attempt clk snap (n + k) (env (c + k)) st_k = Done st'"
  using assms
proof (induction env clk snap c n st arbitrary: st' evs ex rule: retryLoop.induct)
  case (1 env clk snap calls currentTry st)
  show ?case
  proof (cases "attempt clk snap currentTry (env calls) st")
    case (Done s1)
    with "1.prems" have "st' = s1" "evs = [Fetch (apiKey snap) (apiMessages snap)]" "ex = LoopReturn"
      by (simp_all add: retryLoop.simps)
    with Done "1.prems"(1) show ?thesis
      by (intro exI [of _ 0] exI [of _ st]) simp
  next
    case (Again d s1)
    then have lt: "currentTry < MAX_RETRIES" and d: "d = INITIAL_BACKOFF_MS * 2 ^ currentTry"
      using attempt_Again by blast+
    obtain s2 evs2 ex2 where rec: "retryLoop env clk snap (calls + 1) (currentTry + 1) s1 = (s2, evs2, ex2)"
      by (metis prod_cases3)
    from "1.prems" Again rec have res: "st' = s2" "ex = ex2"
      "evs = Fetch (apiKey snap) (apiMessages snap) # Wait d # evs2"
      by (simp_all add: retryLoop.simps)
    from lt have le: "currentTry + 1 \<le> MAX_RETRIES" by simp
    from "1.IH" [OF "1.prems"(1) Again le rec]
    obtain k st_k where k: "currentTry + 1 + k \<le> MAX_RETRIES"
      "evs2 = rounds snap (currentTry + 1) k @ [Fetch (apiKey snap) (apiMessages snap)]"
      "ex2 = LoopReturn"
      "attempt clk snap (currentTry + 1 + k) (env (calls + 1 + k)) st_k = Done s2"
      by blast
    show ?thesis
      using k res d
      by (intro exI [of _ "Suc k"] exI [of _ st_k]) simp
  qed
qed

lemma fetches_rounds: "fetches (rounds snap n k @ evs) = k + fetches evs"
  by (induction k arbitrary: n) (simp_all add: fetches_def)

lemma waitsOf_rounds:
  "waitsOf (rounds snap n k @ evs) = map (\<lambda>i. INITIAL_BACKOFF_MS * 2 ^ i) [n ..< n + k] @ waitsOf evs"
proof (induction k arbitrary: n)
  case 0
  show ?case by simp
next
  case (Suc k)
  have "[n ..< n + Suc k] = n # [Suc n ..< n + Suc k]"
    by (rule upt_conv_Cons) simp
  then have "[n ..< n + Suc k] = n # [Suc n ..< Suc n + k]"
    by (simp only: add_Suc add_Suc_right)
  with Suc [of "Suc n"] show ?case by (simp del: upt_Suc)
qed

lemma saveCurrentChat_frame:
  "hasSentMessage (saveCurrentChat clk snap st) = hasSentMessage st"
  "error (saveCurrentChat clk snap st) = error st"
  "isLoading (saveCurrentChat clk snap st) = isLoading st"
  "isRetrying (saveCurrentChat clk snap st) = isRetrying st"
  "chatHistory (saveCurrentChat clk snap st) = chatHistory st"
  "currentChatTitle (saveCurrentChat clk snap st) = currentChatTitle st"
  "documents (saveCurrentChat clk snap st) = documents st"
  by (simp_all add: saveCurrentChat_def Let_def)

lemma catchBlock_last:
  "catchBlock MAX_RETRIES e st =
     Done (st\<lparr>error := Some ((''Network error: '' @ e @ ''. '') @ ''Max retries reached.''),
              isLoading := False, isRetrying := False\<rparr>)"
  by (simp add: catchBlock_def)

lemma attempt_last:
  assumes "retryableShaped out"
  shows "\<exists>pre. attempt clk snap MAX_RETRIES out st =
           Done (st\<lparr>error := Some (pre @ ''Max retries reached.''),
                    isLoading := False, isRetrying := False\<rparr>)"
proof (cases out)
  case (Thrown e)
  then show ?thesis
    unfolding attempt_def
    by (intro exI [of _ "''Network error: '' @ e @ ''. ''"]) (simp add: catchBlock_last)
next
  case (Response status b)
  with assms have nok: "\<not> ok status"
    by (auto simp: ok_def)
  show ?thesis
  proof (cases b)
    case (JsonNull e)
    with Response nok show ?thesis
      unfolding attempt_def
      by (intro exI [of _ "''Network error: '' @ e @ ''. ''"]) (simp add: catchBlock_last)
  next
    case (Unparseable e)
    with Response nok show ?thesis
      unfolding attempt_def
      by (intro exI [of _ "''API error: '' @ string_of_nat status @ '' - ''
             @ ''Failed to parse error response.'' @ ''. ''"]) simp
  next
    case (Json a m)
    with Response nok show ?thesis
      unfolding attempt_def
      by (intro exI [of _ "''API error: '' @ string_of_nat status @ '' - ''
             @ (if truthy m then the m else ''Unknown error'') @ ''. ''"]) simp
  qed
qed

lemma retryLoop_invariant:
  assumes "n \<le> MAX_RETRIES" and "P st"
    and ret: "\<And>i out st st'. P st \<Longrightarrow> attempt clk snap i out st = Done st' \<Longrightarrow> Q st'"
    and rep: "\<And>i out st d st'. P st \<Longrightarrow> attempt clk snap i out st = Again d st' \<Longrightarrow> P st'"
  shows "Q (finalState (retryLoop env clk snap c n st))"
proof -
  obtain st' evs ex where r: "retryLoop env clk snap c n st = (st', evs, ex)"
    by (metis prod_cases3)
  have "Q st'"
    using assms(1,2) r ret rep
  proof (induction env clk snap c n st arbitrary: st' evs ex rule: retryLoop.induct)
    case (1 env clk snap calls currentTry st)
    show ?case
    proof (cases "attempt clk snap currentTry (env calls) st")
      case (Done s1)
      with "1.prems" have "st' = s1" by (simp add: retryLoop.simps)
      with "1.prems"(4) [OF "1.prems"(2) Done] show ?thesis by simp
    next
      case (Again d s1)
      then have le: "currentTry + 1 \<le> MAX_RETRIES"
        using attempt_Again by fastforce
      obtain s2 evs2 ex2 where
        rec: "retryLoop env clk snap (calls + 1) (currentTry + 1) s1 = (s2, evs2, ex2)"
        by (metis prod_cases3)
      from "1.prems" Again rec have "st' = s2" by (simp add: retryLoop.simps)
      with "1.IH" [OF "1.prems"(1) Again le "1.prems"(5) [OF "1.prems"(2) Again] rec
          "1.prems"(4,5)]
      show ?thesis by simp
    qed
  qed
  with r show ?thesis by (simp add: finalState_def)
qed

lemma sendMessage_rejected:
  assumes "\<not> passesPreconditions s"
  shows "fetches (events (sendMessage env clk s st)) = 0"
    and "waitsOf (events (sendMessage env clk s st)) = []"
    and "exitOf (sendMessage env clk s st) = EarlyReturn"
    and "hasSentMessage (finalState (sendMessage env clk s st)) = hasSentMessage st"
  using assms
  by (auto simp: sendMessage_def passesPreconditions_def events_def exitOf_def fetches_def
      finalState_def)

lemma sendMessage_started:
  assumes "passesPreconditions s"
  shows "sendMessage env clk s st =
           retryLoop env clk s 0 0
             (st\<lparr>chatHistory := chatHistory st @ [\<lparr>role = User, content = message s\<rparr>],
                 message := [], isLoading := True, error := None, hasSentMessage := True,
                 isRetrying := False\<rparr>)"
  using assms by (simp add: sendMessage_def passesPreconditions_def)

lemma sendMessage_shape:
  assumes "passesPreconditions s"
  shows "\<exists>k st_k st'. k \<le> MAX_RETRIES
           \<and> sendMessage env clk s st =
               (st', rounds s 0 k @ [Fetch (apiKey s) (apiMessages s)], LoopReturn)
           \<and> attempt clk s k (env k) st_k = Done st'"
proof -
  let ?st0 = "st\<lparr>chatHistory := chatHistory st @ [\<lparr>role = User, content = message s\<rparr>],
                 message := [], isLoading := True, error := None, hasSentMessage := True,
                 isRetrying := False\<rparr>"
  obtain st' evs ex where r: "retryLoop env clk s 0 0 ?st0 = (st', evs, ex)"
    by (metis prod_cases3)
  from retryLoop_shape [OF _ r] obtain k st_k where
    "0 + k \<le> MAX_RETRIES" "evs = rounds s 0 k @ [Fetch (apiKey s) (apiMessages s)]"
    "ex = LoopReturn" "attempt clk s (0 + k) (env (0 + k)) st_k = Done st'"
    by auto
  with r sendMessage_started [OF assms, of env clk st] show ?thesis
    by auto
qed

text \<open>
  C1. One invocation of \<open>sendMessage\<close> makes at most \<open>MAX_RETRIES + 1 = 6\<close> requests. When it
  makes six and the outcome of the sixth is a thrown error or a response with status 429 or
  5xx, the invocation returns from inside the loop after that request, with five waits behind
  it, the loading and retrying indicators cleared and an error text that ends in
  \<open>Max retries reached.\<close>
\<close>

theorem sendMessage_at_most_six_attempts:
  "fetches (events (sendMessage env clk s s)) \<le> MAX_RETRIES + 1 \<and> MAX_RETRIES + 1 = 6 \<and>
   (fetches (events (sendMessage env clk s s)) = 6 \<and> retryableShaped (env 5) \<longrightarrow>
      exitOf (sendMessage env clk s s) = LoopReturn
      \<and> (\<exists>pre. error (finalState (sendMessage env clk s s)) = Some (pre @ ''Max retries reached.''))
      \<and> \<not> isLoading (finalState (sendMessage env clk s s))
      \<and> \<not> isRetrying (finalState (sendMessage env clk s s))
      \<and> last (events (sendMessage env clk s s)) = Fetch (apiKey s) (apiMessages s)
      \<and> length (waitsOf (events (sendMessage env clk s s))) = 5)"
proof (cases "passesPreconditions s")
  case False
  from sendMessage_rejected(1) [OF False, of env clk s] show ?thesis
    by (simp add: MAX_RETRIES_def)
next
  case True
  from sendMessage_shape [OF True, of env clk s] obtain k st_k st' where
    k: "k \<le> MAX_RETRIES"
    and r: "sendMessage env clk s s =
              (st', rounds s 0 k @ [Fetch (apiKey s) (apiMessages s)], LoopReturn)"
    and a: "attempt clk s k (env k) st_k = Done st'"
    by blast
  have f: "fetches (events (sendMessage env clk s s)) = k + 1"
    by (simp add: r events_def fetches_rounds) (simp add: fetches_def)
  have w: "length (waitsOf (events (sendMessage env clk s s))) = k"
    by (simp add: r events_def waitsOf_rounds)
  have "exitOf (sendMessage env clk s s) = LoopReturn"
       "last (events (sendMessage env clk s s)) = Fetch (apiKey s) (apiMessages s)"
    by (simp_all add: r events_def exitOf_def)
  moreover have "(\<exists>pre. error (finalState (sendMessage env clk s s)) = Some (pre @ ''Max retries reached.''))
      \<and> \<not> isLoading (finalState (sendMessage env clk s s))
      \<and> \<not> isRetrying (finalState (sendMessage env clk s s))"
    if "k = 5" and "retryableShaped (env 5)"
  proof -
    from attempt_last [OF that(2), of clk s st_k] obtain pre where
      "attempt clk s MAX_RETRIES (env 5) st_k =
         Done (st_k\<lparr>error := Some (pre @ ''Max retries reached.''),
                  isLoading := False, isRetrying := False\<rparr>)"
      by blast
    with a that(1) have "st' = st_k\<lparr>error := Some (pre @ ''Max retries reached.''),
                  isLoading := False, isRetrying := False\<rparr>"
      by (simp add: MAX_RETRIES_def)
    then show ?thesis by (simp add: r finalState_def)
  qed
  ultimately show ?thesis
    using k f w by (auto simp: MAX_RETRIES_def)
qed

theorem sendMessage_at_most_six_attempts_witness:
  "fetches (events (sendMessage env500 clk0 s_init s_init)) = 6 \<and> retryableShaped (env500 5)
   \<and> exitOf (sendMessage env500 clk0 s_init s_init) = LoopReturn
   \<and> error (finalState (sendMessage env500 clk0 s_init s_init))
       = Some ''API error: 500 - Unknown error. Max retries reached.''
   \<and> length (waitsOf (events (sendMessage env500 clk0 s_init s_init))) = 5"
  using sendMessage_at_most_six_attempts [of env500 clk0 s_init]
  by (simp add: run_defs s_init_def env500_def clk0_def)

text \<open>
  C2 as stated fails at \<open>n = 5\<close>: when every request is answered with status 500, the attempt
  with the counter at 5 fails with a retryable shape, six requests are made, the waits are
  1, 2, 4, 8 and 16 seconds, and no wait of \<open>1000 * 2 ^ 5\<close> milliseconds is ever inserted.
\<close>

theorem backoff_delay_thirty_two_seconds_counterexample:
  "retryableShaped (env500 5)
   \<and> fetches (events (sendMessage env500 clk0 s_init s_init)) = 6
   \<and> waitsOf (events (sendMessage env500 clk0 s_init s_init)) = [1000, 2000, 4000, 8000, 16000]
   \<and> Wait (1000 * 2 ^ 5) \<notin> set (events (sendMessage env500 clk0 s_init s_init))"
  by (simp add: run_defs s_init_def env500_def clk0_def)

text \<open>
  C2, amended. An iteration goes round the loop only with the counter \<open>n\<close> at most 4, and the
  wait it inserts is \<open>1000 * 2 ^ n\<close> milliseconds, whether the failure is a response or a thrown
  error. So one invocation has at most five waits, the wait before retry \<open>n\<close> is
  \<open>1000 * 2 ^ n\<close>, and each wait is followed by one more request.
\<close>

theorem backoff_delays:
  "(attempt clk snap n out st = Again d st' \<longrightarrow> n \<le> 4 \<and> d = 1000 * 2 ^ n)
   \<and> length (waitsOf (events (sendMessage env clk s s))) \<le> 5
   \<and> waitsOf (events (sendMessage env clk s s))
       = map (\<lambda>n. 1000 * 2 ^ n) [0 ..< length (waitsOf (events (sendMessage env clk s s)))]
   \<and> (passesPreconditions s \<longrightarrow>
        fetches (events (sendMessage env clk s s))
          = length (waitsOf (events (sendMessage env clk s s))) + 1)"
proof -
  have a: "attempt clk snap n out st = Again d st' \<longrightarrow> n \<le> 4 \<and> d = 1000 * 2 ^ n"
    using attempt_Again [of clk snap n out st d st']
    by (auto simp: MAX_RETRIES_def INITIAL_BACKOFF_MS_def)
  have b: "length (waitsOf (events (sendMessage env clk s s))) \<le> 5
   \<and> waitsOf (events (sendMessage env clk s s))
       = map (\<lambda>n. 1000 * 2 ^ n) [0 ..< length (waitsOf (events (sendMessage env clk s s)))]
   \<and> (passesPreconditions s \<longrightarrow>
        fetches (events (sendMessage env clk s s))
          = length (waitsOf (events (sendMessage env clk s s))) + 1)"
  proof (cases "passesPreconditions s")
    case False
    from sendMessage_rejected(2) [OF False, of env clk s] False show ?thesis
      by simp
  next
    case True
    from sendMessage_shape [OF True, of env clk s] obtain k st_k st' where
      k: "k \<le> MAX_RETRIES"
      and r: "sendMessage env clk s s =
                (st', rounds s 0 k @ [Fetch (apiKey s) (apiMessages s)], LoopReturn)"
      by blast
    have f: "fetches (events (sendMessage env clk s s)) = k + 1"
      by (simp add: r events_def fetches_rounds) (simp add: fetches_def)
    have w: "waitsOf (events (sendMessage env clk s s)) = map (\<lambda>n. 1000 * 2 ^ n) [0 ..< k]"
      by (simp add: r events_def waitsOf_rounds INITIAL_BACKOFF_MS_def)
    show ?thesis
      using k f by (simp add: w MAX_RETRIES_def)
  qed
  from a b show ?thesis by blast
qed

theorem backoff_delays_witness:
  "attempt clk0 s_init 2 (Thrown ''Failed to fetch'') s_init
     = Again 4000 (s_init\<lparr>error := Some ''Network error: Failed to fetch. Retrying in 4s... (Attempt 3/5)'',
                         isRetrying := True\<rparr>)
   \<and> (2::nat) \<le> 4 \<and> (4000::nat) = 1000 * 2 ^ 2
   \<and> passesPreconditions s_init
   \<and> fetches (events (sendMessage env500 clk0 s_init s_init)) = 5 + 1
   \<and> waitsOf (events (sendMessage env500 clk0 s_init s_init)) = [1000, 2000, 4000, 8000, 16000]"
  using backoff_delays [of clk0 s_init 2 "Thrown ''Failed to fetch''" s_init 4000
      "s_init\<lparr>error := Some ''Network error: Failed to fetch. Retrying in 4s... (Attempt 3/5)'',
                         isRetrying := True\<rparr>" env500 s_init]
  by (simp add: run_defs s_init_def env500_def clk0_def)

lemma afterLoop_sets_postLoopError:
  "currentTry > MAX_RETRIES \<Longrightarrow> error (afterLoop currentTry st) = Some postLoopError"
  by (simp add: afterLoop_def postLoopError_def)

lemma attempt_error_cases:
  assumes "error st \<noteq> Some postLoopError"
  shows "case attempt clk snap i out st of
           Done st' \<Rightarrow> error st' \<noteq> Some postLoopError
         | Again d st' \<Rightarrow> error st' \<noteq> Some postLoopError"
  using assms
  by (simp add: attempt_def catchBlock_def Let_def postLoopError_def saveCurrentChat_frame
      split: fetchOutcome.split body.split option.split)

lemma attempt_error_not_postLoop:
  assumes "error st \<noteq> Some postLoopError"
  shows "attempt clk snap i out st = Done st' \<Longrightarrow> error st' \<noteq> Some postLoopError"
    and "attempt clk snap i out st = Again d st' \<Longrightarrow> error st' \<noteq> Some postLoopError"
  using attempt_error_cases [OF assms, of clk snap i out]
  by (simp_all split: step.splits)

text \<open>
  C9. The code after the loop is never reached: \<open>sendMessage\<close> never ends there, the loop
  entered with the counter at most \<open>MAX_RETRIES\<close> ends by a \<open>return\<close> inside it, an iteration
  that goes round leaves the incremented counter at most \<open>MAX_RETRIES\<close>, and an invocation
  that got past the sent-flag guard never leaves the post-loop text in \<open>error\<close>.
\<close>

theorem post_loop_unreachable:
  "exitOf (sendMessage env clk s s) \<noteq> PostLoop
   \<and> (currentTry \<le> MAX_RETRIES \<longrightarrow> exitOf (retryLoop env clk snap calls currentTry st) = LoopReturn)
   \<and> (attempt clk snap currentTry out st = Again d st' \<longrightarrow> currentTry + 1 \<le> MAX_RETRIES)
   \<and> (\<not> hasSentMessage s \<longrightarrow> error (finalState (sendMessage env clk s s)) \<noteq> Some postLoopError)"
proof -
  have loop: "exitOf (retryLoop env clk snap calls currentTry st) = LoopReturn"
    if "currentTry \<le> MAX_RETRIES"
  proof -
    obtain st2 evs ex where r: "retryLoop env clk snap calls currentTry st = (st2, evs, ex)"
      by (metis prod_cases3)
    from retryLoop_shape [OF that r] show ?thesis
      by (auto simp: r exitOf_def)
  qed
  have step: "attempt clk snap currentTry out st = Again d st' \<longrightarrow> currentTry + 1 \<le> MAX_RETRIES"
    using attempt_Again [of clk snap currentTry out st d st'] by auto
  have ex: "exitOf (sendMessage env clk s s) \<noteq> PostLoop"
  proof (cases "passesPreconditions s")
    case False
    from sendMessage_rejected(3) [OF False, of env clk s] show ?thesis by simp
  next
    case True
    from sendMessage_shape [OF True, of env clk s] show ?thesis
      by (auto simp: exitOf_def)
  qed
  have err: "error (finalState (sendMessage env clk s s)) \<noteq> Some postLoopError"
    if ns: "\<not> hasSentMessage s"
  proof (cases "passesPreconditions s")
    case False
    with ns show ?thesis
      by (auto simp: sendMessage_def passesPreconditions_def finalState_def postLoopError_def)
  next
    case True
    let ?P = "\<lambda>st. error st \<noteq> Some postLoopError"
    have "?P (finalState (retryLoop env clk s 0 0
             (s\<lparr>chatHistory := chatHistory s @ [\<lparr>role = User, content = message s\<rparr>],
                 message := [], isLoading := True, error := None, hasSentMessage := True,
                 isRetrying := False\<rparr>)))"
    proof (rule retryLoop_invariant [where P = ?P and Q = ?P])
      show "0 \<le> MAX_RETRIES" by simp
    next
      show "error (s\<lparr>chatHistory := chatHistory s @ [\<lparr>role = User, content = message s\<rparr>],
                 message := [], isLoading := True, error := None, hasSentMessage := True,
                 isRetrying := False\<rparr>) \<noteq> Some postLoopError"
        by simp
    next
      fix i out st st'
      assume "error st \<noteq> Some postLoopError" "attempt clk s i out st = Done st'"
      then show "error st' \<noteq> Some postLoopError"
        by (rule attempt_error_not_postLoop(1))
    next
      fix i out st d st'
      assume "error st \<noteq> Some postLoopError" "attempt clk s i out st = Again d st'"
      then show "error st' \<noteq> Some postLoopError"
        by (rule attempt_error_not_postLoop(2))
    qed
    then show ?thesis
      by (simp add: sendMessage_started [OF True])
  qed
  from loop step ex err show ?thesis by blast
qed

theorem post_loop_unreachable_witness:
  "(0::nat) \<le> MAX_RETRIES \<and> exitOf (retryLoop env500 clk0 s_init 0 0 s_init) = LoopReturn
   \<and> attempt clk0 s_init 4 (env500 4) s_init
        = Again 16000 (s_init\<lparr>error := Some ''API request failed (status 500). Retrying in 16s... (Attempt 5/5)'',
                         isRetrying := True\<rparr>)
   \<and> (4::nat) + 1 \<le> MAX_RETRIES
   \<and> \<not> hasSentMessage s_init
   \<and> error (finalState (sendMessage env500 clk0 s_init s_init))
        = Some ''API error: 500 - Unknown error. Max retries reached.''
   \<and> exitOf (sendMessage env500 clk0 s_init s_init) = LoopReturn"
  using post_loop_unreachable [where env = env500 and clk = clk0 and s = s_init
      and currentTry = 0 and snap = s_init and calls = 0 and st = s_init]
    post_loop_unreachable [where env = env500 and clk = clk0 and s = s_init
      and currentTry = 4 and snap = s_init and out = "env500 4" and st = s_init and d = 16000
      and st' = "s_init\<lparr>error := Some ''API request failed (status 500). Retrying in 16s... (Attempt 5/5)'',
                         isRetrying := True\<rparr>"]
  by (simp add: run_defs s_init_def env500_def clk0_def)

text \<open>
  C4 as stated fails for a status above 599: status 600 is neither 429 nor 5xx, yet the
  attempt is retried, and the invocation makes six requests.
\<close>

theorem non_2xx_counterexample:
  "\<not> ok 600 \<and> (600::nat) \<noteq> 429 \<and> \<not> (500 \<le> (600::nat) \<and> (600::nat) \<le> 599)
   \<and> attempt clk0 s_init 0 (env600 0) s_init
       = Again 1000 (s_init\<lparr>error := Some ''API request failed (status 600). Retrying in 1s... (Attempt 1/5)'',
                         isRetrying := True\<rparr>)
   \<and> fetches (events (sendMessage env600 clk0 s_init s_init)) = 6"
  by (simp add: run_defs s_init_def env600_def clk0_def)

text \<open>
  C4, amended. For a response that is not 2xx and whose body is not the JSON value \<open>null\<close>:
  when the status is 429 or at least 500 and the counter is below \<open>MAX_RETRIES\<close>, an error is
  recorded, the retrying indicator is set, the wait \<open>1000 * 2 ^ currentTry\<close> follows the request
  and the loop continues with the counter incremented; in every other case the invocation
  returns after that request with an error recorded and both indicators cleared.
\<close>

theorem non_2xx_classification:
  assumes "currentTry \<le> MAX_RETRIES" and "env calls = Response status b"
    and "\<not> ok status" and "\<not> isJsonNull b"
  shows "if (status = 429 \<or> status \<ge> 500) \<and> currentTry < MAX_RETRIES
         then (\<exists>e. retryLoop env clk snap calls currentTry st =
                 (case retryLoop env clk snap (calls + 1) (currentTry + 1)
                         (st\<lparr>error := Some e, isRetrying := True\<rparr>) of
                    (st', evs, ex) \<Rightarrow>
                      (st', Fetch (apiKey snap) (apiMessages snap)
                              # Wait (1000 * 2 ^ currentTry) # evs, ex)))
         else (\<exists>e. retryLoop env clk snap calls currentTry st =
                 (st\<lparr>error := Some e, isLoading := False, isRetrying := False\<rparr>,
                  [Fetch (apiKey snap) (apiMessages snap)], LoopReturn))"
proof (cases "(status = 429 \<or> status \<ge> 500) \<and> currentTry < MAX_RETRIES")
  case True
  with assms(3,4) obtain e where
    "attempt clk snap currentTry (Response status b) st
       = Again (1000 * 2 ^ currentTry) (st\<lparr>error := Some e, isRetrying := True\<rparr>)"
    by (cases b) (auto simp: attempt_def Let_def INITIAL_BACKOFF_MS_def)
  with assms(1,2) True show ?thesis
    by (subst retryLoop.simps) auto
next
  case False
  with assms(3,4) obtain e where
    "attempt clk snap currentTry (Response status b) st
       = Done (st\<lparr>error := Some e, isLoading := False, isRetrying := False\<rparr>)"
    by (cases b) (auto simp: attempt_def Let_def)
  with assms(1,2) False show ?thesis
    by (subst retryLoop.simps) auto
qed

theorem non_2xx_classification_witness:
  "(0::nat) \<le> MAX_RETRIES \<and> env500 0 = Response 500 (Json None None) \<and> \<not> ok 500
   \<and> \<not> isJsonNull (Json None None)
   \<and> env404 0 = Response 404 (Json None (Some ''Not found'')) \<and> \<not> ok 404
   \<and> \<not> isJsonNull (Json None (Some ''Not found''))
   \<and> waitsOf (events (retryLoop env500 clk0 s_init 0 0 s_init))
       = [1000, 2000, 4000, 8000, 16000]
   \<and> retryLoop env404 clk0 s_init 0 0 s_init
       = (s_init\<lparr>error := Some ''API error: 404 - Not found. Non-retryable error.'',
                 isLoading := False, isRetrying := False\<rparr>,
          [Fetch (apiKey s_init) (apiMessages s_init)], LoopReturn)"
  using non_2xx_classification [where currentTry = 0 and env = env500 and calls = 0
      and status = 500 and b = "Json None None" and clk = clk0 and snap = s_init
      and st = s_init]
    non_2xx_classification [where currentTry = 0 and env = env404 and calls = 0
      and status = 404 and b = "Json None (Some ''Not found'')" and clk = clk0
      and snap = s_init and st = s_init]
  by (simp add: run_defs s_init_def env500_def env404_def clk0_def)

text \<open>
  The body the statement above leaves out: with the JSON value \<open>null\<close> as body, reading the
  error message throws, and the \<open>catch\<close> block retries a status that is neither 429 nor 5xx.
\<close>

lemma non_2xx_null_body_retried:
  "attempt clk0 s_init 0 (Response 400 (JsonNull ''errorData is null'')) s_init
     = Again 1000 (s_init\<lparr>error := Some ''Network error: errorData is null. Retrying in 1s... (Attempt 1/5)'',
                         isRetrying := True\<rparr>)"
  by (simp add: run_defs)

section \<open>Request construction\<close>

text \<open>
  C5 as stated fails for two attached documents that are both empty: no document has
  non-empty content, yet the request carries a system message, and its content starts with
  \<open>Context:\<close> and a line break.
\<close>

theorem apiMessages_blank_documents_counterexample:
  "passesPreconditions s_blank
   \<and> map doc_content (documents s_blank) = [[], []]
   \<and> apiMessages s_blank
       = [\<lparr>role = System, content = ''Context:\<newline>\<newline>\<newline>''\<rparr>,
          \<lparr>role = User, content = ''What is X?''\<rparr>]"
  by (simp add: run_defs s_blank_def s_init_def)

lemma join_empty_iff:
  "(join sep xs = []) = ((\<forall>x\<in>set xs. x = []) \<and> (sep = [] \<or> length xs \<le> 1))"
  by (induction sep xs rule: join.induct) auto

lemma events_fetch:
  "e \<in> set (events (sendMessage env clk s s)) \<Longrightarrow> isFetch e \<Longrightarrow>
     e = Fetch (apiKey s) (apiMessages s)"
proof (cases "passesPreconditions s")
  case False
  assume "e \<in> set (events (sendMessage env clk s s))" "isFetch e"
  with sendMessage_rejected(1) [OF False, of env clk s] show ?thesis
    by (auto simp: fetches_def filter_empty_conv)
next
  case True
  assume e: "e \<in> set (events (sendMessage env clk s s))" "isFetch e"
  have r: "isFetch e \<Longrightarrow> e \<in> set (rounds s n k) \<Longrightarrow> e = Fetch (apiKey s) (apiMessages s)" for n k
    by (induction k arbitrary: n) auto
  from sendMessage_shape [OF True, of env clk s] e r show ?thesis
    by (auto simp: events_def)
qed

text \<open>
  C5, amended. The request's message list is the prior transcript, then at most one
  system message, then the new user message. The system message holds \<open>Context:\<close>, a line
  break and the documents' contents joined by a blank line; it is present exactly when that
  joined text is non-empty, that is when some document has non-empty content or at least two
  documents are attached. Every request of the invocation carries this list.
\<close>

theorem apiMessages_shape:
  "apiMessages s =
     chatHistory s
     @ (if join ''\<newline>\<newline>'' (map doc_content (documents s)) \<noteq> []
        then [\<lparr>role = System,
               content = ''Context:\<newline>'' @ join ''\<newline>\<newline>'' (map doc_content (documents s))\<rparr>]
        else [])
     @ [\<lparr>role = User, content = message s\<rparr>]
   \<and> ((join ''\<newline>\<newline>'' (map doc_content (documents s)) \<noteq> [])
        = ((\<exists>d\<in>set (documents s). doc_content d \<noteq> []) \<or> length (documents s) \<ge> 2))
   \<and> (\<forall>e\<in>set (events (sendMessage env clk s s)).
         isFetch e \<longrightarrow> e = Fetch (apiKey s) (apiMessages s))"
proof -
  have "apiMessages s =
     chatHistory s
     @ (if join ''\<newline>\<newline>'' (map doc_content (documents s)) \<noteq> []
        then [\<lparr>role = System,
               content = ''Context:\<newline>'' @ join ''\<newline>\<newline>'' (map doc_content (documents s))\<rparr>]
        else [])
     @ [\<lparr>role = User, content = message s\<rparr>]"
    by (simp add: apiMessages_def Let_def)
  moreover have "(join ''\<newline>\<newline>'' (map doc_content (documents s)) \<noteq> [])
        = ((\<exists>d\<in>set (documents s). doc_content d \<noteq> []) \<or> length (documents s) \<ge> 2)"
    by (auto simp: join_empty_iff)
  ultimately show ?thesis
    using events_fetch [of _ env clk s] by blast
qed

theorem apiMessages_shape_witness:
  "apiMessages s_init
     = [\<lparr>role = System, content = ''Context:\<newline>X is Y.''\<rparr>,
        \<lparr>role = User, content = ''What is X?''\<rparr>]
   \<and> Fetch ''k'' (apiMessages s_init) \<in> set (events (sendMessage envOk clk0 s_init s_init))
   \<and> isFetch (Fetch ''k'' (apiMessages s_init))
   \<and> (\<exists>d\<in>set (documents s_init). doc_content d \<noteq> [])"
  using apiMessages_shape [of s_init envOk clk0]
  by (simp add: run_defs s_init_def envOk_def clk0_def)

section \<open>The sent flag\<close>

lemma attempt_hasSent_cases:
  assumes "hasSentMessage st"
  shows "case attempt clk snap i out st of
           Done st' \<Rightarrow> hasSentMessage st'
         | Again d st' \<Rightarrow> hasSentMessage st'"
  using assms
  by (simp add: attempt_def catchBlock_def Let_def saveCurrentChat_frame
      split: fetchOutcome.split body.split option.split)

lemma attempt_hasSent:
  assumes "hasSentMessage st"
  shows "attempt clk snap i out st = Done st' \<Longrightarrow> hasSentMessage st'"
    and "attempt clk snap i out st = Again d st' \<Longrightarrow> hasSentMessage st'"
  using attempt_hasSent_cases [OF assms, of clk snap i out]
  by (simp_all split: step.splits)

lemma sendMessage_sets_flag:
  assumes "passesPreconditions s"
  shows "hasSentMessage (finalState (sendMessage env clk s s))"
proof -
  have "hasSentMessage (finalState (retryLoop env clk s 0 0
             (s\<lparr>chatHistory := chatHistory s @ [\<lparr>role = User, content = message s\<rparr>],
                 message := [], isLoading := True, error := None, hasSentMessage := True,
                 isRetrying := False\<rparr>)))"
  proof (rule retryLoop_invariant [where P = hasSentMessage and Q = hasSentMessage])
    show "0 \<le> MAX_RETRIES" by simp
  next
    show "hasSentMessage (s\<lparr>chatHistory := chatHistory s @ [\<lparr>role = User, content = message s\<rparr>],
                 message := [], isLoading := True, error := None, hasSentMessage := True,
                 isRetrying := False\<rparr>)"
      by simp
  next
    fix i out st st'
    assume "hasSentMessage st" "attempt clk s i out st = Done st'"
    then show "hasSentMessage st'" by (rule attempt_hasSent(1))
  next
    fix i out st d st'
    assume "hasSentMessage st" "attempt clk s i out st = Again d st'"
    then show "hasSentMessage st'" by (rule attempt_hasSent(2))
  qed
  then show ?thesis
    by (simp add: sendMessage_started [OF assms])
qed

lemma sendMessage_noop:
  "hasSentMessage s \<Longrightarrow> sendMessage env clk s s = (s, [], EarlyReturn)"
  by (simp add: sendMessage_def)

lemma perform_keeps_flag:
  assumes "hasSentMessage s"
  shows "hasSentMessage (fst (perform a s)) \<and> fetches (snd (perform a s)) = 0"
  using assms
  by (cases a)
     (simp_all add: sendMessage_noop finalState_def events_def fetches_def saveCurrentChat_frame
        updateChatTitle_def handleApiKeyChange_def handleMessageChange_def handleFileUpload_def
        handleManualTextSubmit_def removeDocument_def)

lemma performAll_keeps_flag:
  assumes "hasSentMessage s"
  shows "hasSentMessage (fst (performAll acts s)) \<and> fetches (snd (performAll acts s)) = 0"
  using assms
proof (induction acts arbitrary: s)
  case Nil
  then show ?case by (simp add: fetches_def)
next
  case (Cons a acts)
  obtain s1 evs1 where p: "perform a s = (s1, evs1)" by (cases "perform a s")
  obtain s2 evs2 where q: "performAll acts s1 = (s2, evs2)" by (cases "performAll acts s1")
  from perform_keeps_flag [OF Cons.prems, of a] p have 1: "hasSentMessage s1" "fetches evs1 = 0"
    by simp_all
  from Cons.IH [OF 1(1)] q have 2: "hasSentMessage s2" "fetches evs2 = 0"
    by simp_all
  from 1 2 show ?case
    by (simp add: p q fetches_def)
qed

text \<open>
  C3. A send that passes the guards ends with \<open>hasSentMessage\<close> set, whatever the endpoint
  answers. With the flag set, \<open>sendMessage\<close> returns at once, with the state unchanged and no
  event; and through any sequence of events of the session the flag stays set and no request
  is made.
\<close>

theorem sent_flag_stays_set:
  "(passesPreconditions s \<longrightarrow> hasSentMessage (finalState (sendMessage env clk s s)))
   \<and> (hasSentMessage s \<longrightarrow>
        sendMessage env clk s s = (s, [], EarlyReturn)
        \<and> hasSentMessage (fst (performAll acts s))
        \<and> fetches (snd (performAll acts s)) = 0)"
  using sendMessage_sets_flag [of s env clk] sendMessage_noop [of s env clk]
    performAll_keeps_flag [of s acts]
  by blast

theorem sent_flag_stays_set_witness:
  "passesPreconditions s_init
   \<and> hasSentMessage (finalState (sendMessage env500 clk0 s_init s_init))
   \<and> finalState (sendMessage envOk clk0 s_init s_init) = s_sent
   \<and> hasSentMessage s_sent
   \<and> sendMessage envOk clk0 s_sent s_sent = (s_sent, [], EarlyReturn)
   \<and> performAll [HandleMessageChange ''What is Z?'', SendMessage envOk clk0] s_sent
       = (s_sent\<lparr>message := ''What is Z?''\<rparr>, [])"
  using sent_flag_stays_set [of s_init env500 clk0 "[]"]
    sent_flag_stays_set [of s_sent envOk clk0
      "[HandleMessageChange ''What is Z?'', SendMessage envOk clk0]"]
  by (simp add: run_defs s_init_def s_sent_def env500_def envOk_def clk0_def
      handleMessageChange_def)

section \<open>Saving, loading and deleting conversations\<close>

lemmas ctl_defs = saveCurrentChat_def createNewChat_def loadChat_def deleteChat_def Let_def
  string_of_nat.simps digit_def

text \<open>
  C6 fails on the code. Deleting the conversation the active session is bound to, with a
  non-empty transcript, filters it out and then \<open>createNewChat\<close> saves the session again
  under the same id: the id is still in the stored list afterwards, while the session is reset.
\<close>

theorem deleteChat_active_session_still_stored:
  "map sc_id (savedChats s_active) = [''1699999999999'']
   \<and> currentChatId s_active = ''1699999999999''
   \<and> map sc_id (savedChats (deleteChat clk0 ''1699999999999'' s_active s_active))
       = [''1699999999999'']
   \<and> currentChatId (deleteChat clk0 ''1699999999999'' s_active s_active) = ''new''
   \<and> chatHistory (deleteChat clk0 ''1699999999999'' s_active s_active) = []"
  by (simp add: ctl_defs s_active_def s_init_def chat1_def)

text \<open>Where \<open>deleteChat\<close> does what its name says: another session's conversation, and the reset.\<close>

lemma deleteChat_other_removed:
  "currentChatId s \<noteq> chatId \<Longrightarrow>
     chatId \<notin> set (map sc_id (savedChats (deleteChat clk chatId s s)))"
  by (auto simp: deleteChat_def)

lemma deleteChat_active_resets:
  "currentChatId s = chatId \<Longrightarrow>
     currentChatId (deleteChat clk chatId s s) = ''new''
     \<and> currentChatTitle (deleteChat clk chatId s s) = ''New Chat''
     \<and> chatHistory (deleteChat clk chatId s s) = []
     \<and> documents (deleteChat clk chatId s s) = []
     \<and> \<not> hasSentMessage (deleteChat clk chatId s s)"
  by (simp add: deleteChat_def createNewChat_def)

text \<open>
  C8. Loading the stored conversation that the lookup by id finds sets \<open>hasSentMessage\<close> to
  true exactly when its stored transcript is non-empty.
\<close>

theorem loadChat_sent_flag:
  "find (\<lambda>chat. sc_id chat = chatId) (savedChats s) = Some c \<Longrightarrow>
     hasSentMessage (loadChat clk chatId s s) = (length (sc_messages c) > 0)"
  by (simp add: loadChat_def)

theorem loadChat_sent_flag_witness:
  "find (\<lambda>chat. sc_id chat = ''1699999999999'') (savedChats s_loaded) = Some chat1
   \<and> length (sc_messages chat1) = 2
   \<and> hasSentMessage (loadChat clk0 ''1699999999999'' s_loaded s_loaded)
   \<and> find (\<lambda>chat. sc_id chat = ''1600000000000'') (savedChats s_loaded) = Some chat0
   \<and> length (sc_messages chat0) = 0
   \<and> \<not> hasSentMessage (loadChat clk0 ''1600000000000'' s_loaded s_loaded)"
  using loadChat_sent_flag [of "''1699999999999''" s_loaded chat1 clk0]
    loadChat_sent_flag [of "''1600000000000''" s_loaded chat0 clk0]
  by (simp add: s_loaded_def s_init_def chat1_def chat0_def)

text \<open>
  C10 as stated fails for a session that was never saved and has a non-empty transcript:
  loading an id that is not stored saves the session, and the save replaces the current id
  \<open>new\<close> by the minted one.
\<close>

theorem loadChat_unknown_id_counterexample:
  "''nope'' \<notin> set (map sc_id (savedChats s_unsaved))
   \<and> currentChatId s_unsaved = ''new''
   \<and> currentChatId (loadChat clk0 ''nope'' s_unsaved s_unsaved) = ''1700000000000''"
  by (simp add: ctl_defs s_unsaved_def s_init_def clk0_def)

lemma find_sc_id_None:
  "chatId \<notin> set (map sc_id chats) \<Longrightarrow> find (\<lambda>chat. sc_id chat = chatId) chats = None"
  by (induction chats) auto

text \<open>
  C10, amended. For an id that is not stored, \<open>loadChat\<close> does what \<open>saveCurrentChat\<close> does
  and nothing more: title, transcript, documents and sent flag keep their values, and the
  current id keeps its value unless it was \<open>new\<close> with a non-empty transcript, where it becomes
  the id minted by the save.
\<close>

theorem loadChat_unknown_id:
  assumes "chatId \<notin> set (map sc_id (savedChats s))"
  shows "loadChat clk chatId s s = saveCurrentChat clk s s
    \<and> currentChatTitle (loadChat clk chatId s s) = currentChatTitle s
    \<and> chatHistory (loadChat clk chatId s s) = chatHistory s
    \<and> documents (loadChat clk chatId s s) = documents s
    \<and> hasSentMessage (loadChat clk chatId s s) = hasSentMessage s
    \<and> currentChatId (loadChat clk chatId s s)
        = (if currentChatId s = ''new'' \<and> chatHistory s \<noteq> [] then string_of_nat (now clk)
           else currentChatId s)"
proof -
  have "loadChat clk chatId s s = saveCurrentChat clk s s"
    by (simp add: loadChat_def find_sc_id_None [OF assms])
  then show ?thesis
    by (simp add: saveCurrentChat_frame) (simp add: saveCurrentChat_def Let_def)
qed

theorem loadChat_unknown_id_witness:
  "''nope'' \<notin> set (map sc_id (savedChats s_loaded))
   \<and> loadChat clk0 ''nope'' s_loaded s_loaded = saveCurrentChat clk0 s_loaded s_loaded
   \<and> currentChatId (loadChat clk0 ''nope'' s_loaded s_loaded) = ''1699999999999''
   \<and> chatHistory (loadChat clk0 ''nope'' s_loaded s_loaded) = [msg1, msg2]"
  using loadChat_unknown_id [of "''nope''" s_loaded clk0]
  by (simp add: ctl_defs s_loaded_def s_init_def chat1_def chat0_def)


lemma save_once:
  assumes "currentChatId s \<noteq> ''new''" and "chatHistory s \<noteq> []"
  shows "length (filter (\<lambda>c. sc_id c = currentChatId s) (savedChats (saveCurrentChat clk s s))) = 1"
    and "filter (\<lambda>c. sc_id c \<noteq> currentChatId s) (savedChats (saveCurrentChat clk s s))
          = filter (\<lambda>c. sc_id c \<noteq> currentChatId s) (savedChats s)"
    and "currentChatId (saveCurrentChat clk s s) = currentChatId s"
    and "chatHistory (saveCurrentChat clk s s) = chatHistory s"
  using assms by (simp_all add: saveCurrentChat_def Let_def)

lemma saves_append: "saves (xs @ ys) s = saves ys (saves xs s)"
  by (induction xs arbitrary: s) simp_all

lemma saves_frame:
  assumes "currentChatId s \<noteq> ''new''" and "chatHistory s \<noteq> []"
  shows "currentChatId (saves clks s) = currentChatId s \<and> chatHistory (saves clks s) = chatHistory s
    \<and> filter (\<lambda>c. sc_id c \<noteq> currentChatId s) (savedChats (saves clks s))
          = filter (\<lambda>c. sc_id c \<noteq> currentChatId s) (savedChats s)"
  using assms
proof (induction clks arbitrary: s)
  case Nil
  show ?case by simp
next
  case (Cons clk clks)
  from save_once(2,3,4) [OF Cons.prems, of clk] Cons.IH [of "saveCurrentChat clk s s"] Cons.prems
  show ?case by simp
qed

text \<open>
  C7. For a session with a real id and a non-empty transcript, after one or more saves in a
  row the stored list holds exactly one record with that id, the records of the other ids
  are as before, and the session keeps its id.
\<close>

theorem saveCurrentChat_repeated:
  assumes "currentChatId s \<noteq> ''new''" and "chatHistory s \<noteq> []" and "clks \<noteq> []"
  shows "length (filter (\<lambda>c. sc_id c = currentChatId s) (savedChats (saves clks s))) = 1
    \<and> filter (\<lambda>c. sc_id c \<noteq> currentChatId s) (savedChats (saves clks s))
        = filter (\<lambda>c. sc_id c \<noteq> currentChatId s) (savedChats s)
    \<and> currentChatId (saves clks s) = currentChatId s"
proof -
  from assms(3) obtain clks' clk where c: "clks = clks' @ [clk]"
    by (metis rev_exhaust)
  let ?s = "saves clks' s"
  from saves_frame [OF assms(1,2), of clks'] have
    f: "currentChatId ?s = currentChatId s" "chatHistory ?s = chatHistory s"
    by simp_all
  have "saves clks s = saveCurrentChat clk ?s ?s"
    by (simp add: c saves_append)
  moreover from save_once(1) [of ?s clk] f assms(1,2) have
    "length (filter (\<lambda>c. sc_id c = currentChatId s) (savedChats (saveCurrentChat clk ?s ?s))) = 1"
    by simp
  ultimately show ?thesis
    using saves_frame [OF assms(1,2), of clks] by simp
qed

theorem saveCurrentChat_repeated_witness:
  "currentChatId s_loaded \<noteq> ''new'' \<and> chatHistory s_loaded \<noteq> [] \<and> [clk0, clk0, clk0] \<noteq> []
   \<and> map sc_id (savedChats (saves [clk0, clk0, clk0] s_loaded))
       = [''1699999999999'', ''1600000000000'']"
  using saveCurrentChat_repeated [of s_loaded "[clk0, clk0, clk0]"]
  by (simp add: saveCurrentChat_def Let_def s_loaded_def s_init_def chat1_def chat0_def)

end
